theory Spec2Isabelle
  imports Main "HOL-Library.Word"
begin

unbundle bit_operations_syntax

section \<open>Values shared by the bridge\<close>

text \<open>
  Go's \<^verbatim>\<open>error\<close> values. The bridge receives its errors from collaborators (the RPC
  client, the contract bindings, the hex decoder) and builds one itself with
  \<^verbatim>\<open>fmt.Errorf\<close>. A remote call fails because the node was not reached
  (\<open>TransportError\<close>) or because the node reported a failure (\<open>RemoteError\<close>); a
  response that does not decode carries the decoder's own error value.
\<close>

datatype hexutil_error =
    ErrEmptyString | ErrSyntax | ErrMissingPrefix | ErrEmptyNumber
  | ErrLeadingZero | ErrUint64Range | ErrBig256Range

datatype error =
    TransportError string
  | RemoteError string
  | DecodeError hexutil_error
  | Errorf string

text \<open>A nil pointer that is dereferenced stops the goroutine with a run-time panic.\<close>

datatype panic = NilPointerDereference

text \<open>\<^verbatim>\<open>*big.Int\<close> and \<^verbatim>\<open>hexutil.Big\<close> are unbounded integers; a pointer that may be
  \<^verbatim>\<open>nil\<close> is an option; \<^verbatim>\<open>common.Address\<close> is 20 bytes.\<close>

type_synonym big_Int = int
type_synonym hexutil_Big = int
type_synonym Address = "160 word"

datatype CallOpts = CallOpts

text \<open>A contract getter \<^verbatim>\<open>func(*bind.CallOpts) (*big.Int, error)\<close>: Go returns both
  components, either of which may be \<^verbatim>\<open>nil\<close>.\<close>

type_synonym loader = "CallOpts option \<Rightarrow> big_Int option \<times> error option"

text \<open>The generated binding \<^verbatim>\<open>contracts.DefiFMintMinter\<close>, reduced to the four getters
  the bridge calls.\<close>

record DefiFMintMinter =
  GetFMintFee4dec :: loader
  GetCollateralLowestDebtRatio4dec :: loader
  GetRewardEligibilityRatio4dec :: loader
  FMintFeeDigitsCorrection :: loader

text \<open>\<^verbatim>\<open>types.DefiSettings\<close>, with the fields \<^verbatim>\<open>DefiConfiguration\<close> touches.\<close>

record DefiSettings =
  FMintContract :: Address
  FMintAddressProvider :: Address
  FMintTokenRegistry :: Address
  FMintRewardDistribution :: Address
  FMintCollateralPool :: Address
  FMintDebtPool :: Address
  PriceOracleAggregate :: Address
  MintFee4 :: hexutil_Big
  MinCollateralRatio4 :: hexutil_Big
  RewardCollateralRatio4 :: hexutil_Big
  Decimals :: "32 word"

text \<open>
  \<^verbatim>\<open>fMintConfig\<close>: its two methods have their bodies outside the files at hand, so the
  record holds what they return: the outcome of \<^verbatim>\<open>fMintMinterContract()\<close> and the
  function \<^verbatim>\<open>mustContractAddress\<close>. \<open>addressProvider\<close> is the configured address
  of the fMint address provider.
\<close>

record fMintConfig =
  addressProvider :: Address
  fMintMinterContract :: "DefiFMintMinter option \<times> error option"
  mustContractAddress :: "string \<Rightarrow> Address"

text \<open>
  The RPC client: \<^verbatim>\<open>Call(&result, method, addr.Hex(), tag)\<close> leaves a string in
  \<^verbatim>\<open>result\<close> and returns an error or nil. The client is given the address; its
  textual form is the client's business.
\<close>

record rpc_Client =
  Call :: "string \<Rightarrow> Address \<Rightarrow> string \<Rightarrow> string \<times> error option"

record FtmBridge =
  rpc :: rpc_Client
  fMintCfg :: fMintConfig

section \<open>Pulling one configuration value\<close>

text \<open>
  \<^verbatim>\<open>pullDefiConfigValue\<close> (defi_settings.go, lines 123-136). The receiver is not used
  by the body. On both failures the Go code returns the zero \<^verbatim>\<open>hexutil.Big{}\<close>
  together with the error.
\<close>

definition pullDefiConfigValue :: "loader \<Rightarrow> hexutil_Big \<times> error option" where
  "pullDefiConfigValue cf =
     (case cf None of
        (val, Some err) \<Rightarrow> (0, Some err)
      | (None, None) \<Rightarrow> (0, Some (Errorf ''defi config value not available''))
      | (Some v, None) \<Rightarrow> (v, None))"

section \<open>The decimals correction\<close>

text \<open>\<^verbatim>\<open>big.Int.Uint64\<close>: the low 64 bits of the magnitude.\<close>

definition Uint64 :: "big_Int \<Rightarrow> 64 word" where
  "Uint64 x = word_of_int \<bar>x\<bar>"

text \<open>
  The loop of \<^verbatim>\<open>pullDefiDecimalCorrection\<close> (lines 94-99):
  \<^verbatim>\<open>for value > 1 { value /= 10; dec++ }\<close> on a \<^verbatim>\<open>uint64\<close> and an \<^verbatim>\<open>int32\<close>.
  It returns both variables as they stand when the loop ends.
\<close>

function decimals_loop :: "64 word \<Rightarrow> 32 word \<Rightarrow> 64 word \<times> 32 word" where
  "decimals_loop v dec =
     (if 1 < v then decimals_loop (v div 10) (dec + 1) else (v, dec))"
  by pat_completeness auto
termination
proof (relation "measure (\<lambda>(v, dec). unat v)")
  show "wf (measure (\<lambda>(v::64 word, dec::32 word). unat v))" by simp
next
  fix v :: "64 word" and dec :: "32 word"
  assume "1 < v"
  then have "1 < unat v" by (simp add: word_less_nat_alt)
  then have "unat v div 10 < unat v" by simp
  then show "((v div 10, dec + 1), (v, dec)) \<in> measure (\<lambda>(v, dec). unat v)"
    by (simp add: unat_div)
qed

declare decimals_loop.simps [simp del]

text \<open>\<^verbatim>\<open>pullDefiDecimalCorrection\<close> (lines 85-103).\<close>

definition pullDefiDecimalCorrection :: "DefiFMintMinter \<Rightarrow> 32 word \<times> error option" where
  "pullDefiDecimalCorrection con =
     (case pullDefiConfigValue (FMintFeeDigitsCorrection con) of
        (val, Some err) \<Rightarrow> (0, Some err)
      | (val, None) \<Rightarrow> (snd (decimals_loop (Uint64 val) 0), None))"

text \<open>
  The count the loop stands for, on an unbounded natural number: divide by 10 while the
  number is greater than 1 and count the divisions.
\<close>

function digit_count :: "nat \<Rightarrow> nat" where
  "digit_count n = (if 1 < n then Suc (digit_count (n div 10)) else 0)"
  by pat_completeness auto
termination
  by (relation "measure id") auto

declare digit_count.simps [simp del]

text \<open>A binding whose digits-correction getter yields the given value.\<close>

definition digits_contract :: "big_Int \<Rightarrow> DefiFMintMinter" where
  "digits_contract s =
     \<lparr> GetFMintFee4dec = (\<lambda>_. (Some 0, None)),
       GetCollateralLowestDebtRatio4dec = (\<lambda>_. (Some 0, None)),
       GetRewardEligibilityRatio4dec = (\<lambda>_. (Some 0, None)),
       FMintFeeDigitsCorrection = (\<lambda>_. (Some s, None)) \<rparr>"


section \<open>Aggregating the settings\<close>

text \<open>
  \<^verbatim>\<open>tConfigItemsLoaders\<close> (line 28) is a Go map from a pointer to a field of the
  settings record to the loader of that field. The three pointers
  \<^verbatim>\<open>&ds.MintFee4\<close>, \<^verbatim>\<open>&ds.MinCollateralRatio4\<close> and
  \<^verbatim>\<open>&ds.RewardCollateralRatio4\<close> are the values of \<open>ref\<close>; assigning through one
  of them updates the field it points to.
\<close>

datatype ref = Ref_MintFee4 | Ref_MinCollateralRatio4 | Ref_RewardCollateralRatio4

type_synonym tConfigItemsLoaders = "ref \<rightharpoonup> loader"

fun assign :: "ref \<Rightarrow> hexutil_Big \<Rightarrow> DefiSettings \<Rightarrow> DefiSettings" where
  "assign Ref_MintFee4 v ds = ds\<lparr>MintFee4 := v\<rparr>"
| "assign Ref_MinCollateralRatio4 v ds = ds\<lparr>MinCollateralRatio4 := v\<rparr>"
| "assign Ref_RewardCollateralRatio4 v ds = ds\<lparr>RewardCollateralRatio4 := v\<rparr>"

text \<open>
  \<^verbatim>\<open>pullSetOfDefiConfigValues\<close> (lines 107-120). Go does not fix the order in which
  \<^verbatim>\<open>range\<close> visits the keys of a map, and it may differ from one run to the next:
  \<open>order\<close> is the order of this run, a list of the keys. The Go function returns the
  error only; the settings record it wrote through the pointers is returned with it.
  The assignment \<^verbatim>\<open>*ref, err = ...\<close> stores the value before the error is tested.
\<close>

fun pullSetOfDefiConfigValues ::
  "tConfigItemsLoaders \<Rightarrow> ref list \<Rightarrow> DefiSettings \<Rightarrow> DefiSettings \<times> error option" where
  "pullSetOfDefiConfigValues loaders [] ds = (ds, None)"
| "pullSetOfDefiConfigValues loaders (r # order) ds =
     (case loaders r of
        None \<Rightarrow> pullSetOfDefiConfigValues loaders order ds
      | Some fn \<Rightarrow>
          (case pullDefiConfigValue fn of
             (v, Some err) \<Rightarrow> (assign r v ds, Some err)
           | (v, None) \<Rightarrow> pullSetOfDefiConfigValues loaders order (assign r v ds)))"

text \<open>An order of a run over a map: every key once.\<close>

definition iteration_order :: "tConfigItemsLoaders \<Rightarrow> ref list \<Rightarrow> bool" where
  "iteration_order loaders order \<longleftrightarrow> distinct order \<and> set order = dom loaders"

text \<open>The container \<^verbatim>\<open>DefiConfiguration\<close> creates (lines 39-47); the fields the literal
  does not name are zero.\<close>

definition container :: "fMintConfig \<Rightarrow> DefiSettings" where
  "container cfg =
     \<lparr> FMintContract = mustContractAddress cfg ''0x4acb55fe5f0b7c487edec3862079aa36ab054358'',
       FMintAddressProvider = mustContractAddress cfg ''0xdeec401e448d5d9132eb79ac84eb3f212d7759fb'',
       FMintTokenRegistry = mustContractAddress cfg ''0x60092e344c63c6628ec77926e508f9a9c80553ef'',
       FMintRewardDistribution = mustContractAddress cfg ''0x0039597eb5aa5760e8db15fbe525e56aa661ef26'',
       FMintCollateralPool = mustContractAddress cfg ''0x6d5f2f2e391f47a1075df4d39a24286c63c0e70c'',
       FMintDebtPool = mustContractAddress cfg ''0xe2d1105f35649bf16deebccec1f2100dcb9aadf5'',
       PriceOracleAggregate = mustContractAddress cfg ''0xA1EA42f737bb2E09b0AE4DE001eE06e3BC484fE5'',
       MintFee4 = 0,
       MinCollateralRatio4 = 0,
       RewardCollateralRatio4 = 0,
       Decimals = 0 \<rparr>"

text \<open>The loader table of \<^verbatim>\<open>DefiConfiguration\<close> (lines 61-65).\<close>

definition config_loaders :: "DefiFMintMinter \<Rightarrow> tConfigItemsLoaders" where
  "config_loaders contract =
     [ Ref_MintFee4 \<mapsto> GetFMintFee4dec contract,
       Ref_MinCollateralRatio4 \<mapsto> GetCollateralLowestDebtRatio4dec contract,
       Ref_RewardCollateralRatio4 \<mapsto> GetRewardEligibilityRatio4dec contract ]"

text \<open>
  \<^verbatim>\<open>DefiConfiguration\<close> (lines 31-81). The result is the Go pair of a pointer to the
  settings and an error. The getters are reached through the contract pointer, so a nil
  contract returned without an error is a nil dereference. Logging is left out.
\<close>

definition DefiConfiguration ::
  "FtmBridge \<Rightarrow> ref list \<Rightarrow> panic + (DefiSettings option \<times> error option)" where
  "DefiConfiguration ftm order =
     (case fMintMinterContract (fMintCfg ftm) of
        (c, Some err) \<Rightarrow> Inr (None, Some err)
      | (None, None) \<Rightarrow> Inl NilPointerDereference
      | (Some contract, None) \<Rightarrow>
          (case pullSetOfDefiConfigValues (config_loaders contract) order
                  (container (fMintCfg ftm)) of
             (ds, Some err) \<Rightarrow> Inr (None, Some err)
           | (ds, None) \<Rightarrow>
               (case pullDefiDecimalCorrection contract of
                  (dec, Some err) \<Rightarrow> Inr (None, Some err)
                | (dec, None) \<Rightarrow> Inr (Some (ds\<lparr>Decimals := dec\<rparr>), None))))"

text \<open>What one loader of the table does when it is pulled: its error, if any.\<close>

definition loader_error :: "tConfigItemsLoaders \<Rightarrow> ref \<Rightarrow> error option" where
  "loader_error loaders r =
     (case loaders r of None \<Rightarrow> None | Some fn \<Rightarrow> snd (pullDefiConfigValue fn))"

definition fails :: "tConfigItemsLoaders \<Rightarrow> ref \<Rightarrow> bool" where
  "fails loaders r \<longleftrightarrow> loader_error loaders r \<noteq> None"

text \<open>The first key of the run whose loader fails.\<close>

definition first_failing :: "tConfigItemsLoaders \<Rightarrow> ref list \<Rightarrow> ref option" where
  "first_failing loaders order = find (fails loaders) order"


section \<open>Decoding hex quantities\<close>

text \<open>
  The decoders of go-ethereum's \<^verbatim>\<open>hexutil\<close> package that the bridge calls, with
  \<^verbatim>\<open>strconv.ParseUint\<close> of Go's standard library, as those libraries define them.
  A byte is read as its number.
\<close>

definition has0xPrefix :: "string \<Rightarrow> bool" where
  "has0xPrefix input \<longleftrightarrow>
     length input \<ge> 2 \<and> input ! 0 = CHR ''0'' \<and> (input ! 1 = CHR ''x'' \<or> input ! 1 = CHR ''X'')"

definition checkNumber :: "string \<Rightarrow> string \<times> error option" where
  "checkNumber input =
     (if length input = 0 then ([], Some (DecodeError ErrEmptyString))
      else if \<not> has0xPrefix input then ([], Some (DecodeError ErrMissingPrefix))
      else let raw = drop 2 input in
        if length raw = 0 then ([], Some (DecodeError ErrEmptyNumber))
        else if length raw > 1 \<and> raw ! 0 = CHR ''0'' then ([], Some (DecodeError ErrLeadingZero))
        else (raw, None))"

text \<open>\<^verbatim>\<open>decodeNibble\<close>; \<open>None\<close> is \<^verbatim>\<open>badNibble\<close>.\<close>

definition decodeNibble :: "char \<Rightarrow> nat option" where
  "decodeNibble c =
     (let b = (of_char c :: nat) in
      if of_char CHR ''0'' \<le> b \<and> b \<le> of_char CHR ''9'' then Some (b - of_char CHR ''0'')
      else if of_char CHR ''A'' \<le> b \<and> b \<le> of_char CHR ''F'' then Some (b - of_char CHR ''A'' + 10)
      else if of_char CHR ''a'' \<le> b \<and> b \<le> of_char CHR ''f'' then Some (b - of_char CHR ''a'' + 10)
      else None)"

text \<open>
  The nibbles of \<^verbatim>\<open>DecodeBig\<close>, most significant first. The Go code packs them into
  the machine words of the big integer starting from the end of the string and stops at
  the first bad nibble it meets; the number built is the base-16 value of the string.
\<close>

fun big_of_nibbles :: "nat \<Rightarrow> string \<Rightarrow> nat option" where
  "big_of_nibbles acc [] = Some acc"
| "big_of_nibbles acc (c # cs) =
     (case decodeNibble c of
        None \<Rightarrow> None
      | Some nib \<Rightarrow> big_of_nibbles (acc * 16 + nib) cs)"

definition DecodeBig :: "string \<Rightarrow> big_Int option \<times> error option" where
  "DecodeBig input =
     (case checkNumber input of
        (raw, Some err) \<Rightarrow> (None, Some err)
      | (raw, None) \<Rightarrow>
          if length raw > 64 then (None, Some (DecodeError ErrBig256Range))
          else (case big_of_nibbles 0 raw of
                  None \<Rightarrow> (None, Some (DecodeError ErrSyntax))
                | Some n \<Rightarrow> (Some (int n), None)))"

text \<open>
  \<^verbatim>\<open>strconv.ParseUint(s, 16, 64)\<close>: the loop over the bytes, with the accumulator
  \<^verbatim>\<open>n\<close>. A letter is lowered with \<^verbatim>\<open>c | ('x' - 'X')\<close>; \<^verbatim>\<open>cutoff\<close> is
  \<^verbatim>\<open>maxUint64/16 + 1\<close>. The error is already mapped by \<^verbatim>\<open>hexutil.mapError\<close>:
  a syntax error to \<open>ErrSyntax\<close>, a range error to \<open>ErrUint64Range\<close>.
\<close>

definition lower :: "nat \<Rightarrow> nat" where
  "lower c = c OR 32"

fun parse_loop :: "64 word \<Rightarrow> string \<Rightarrow> 64 word \<times> error option" where
  "parse_loop n [] = (n, None)"
| "parse_loop n (c # cs) =
     (let b = (of_char c :: nat) in
      if \<not> ((of_char CHR ''0'' \<le> b \<and> b \<le> of_char CHR ''9'')
             \<or> (of_char CHR ''a'' \<le> lower b \<and> lower b \<le> of_char CHR ''z''))
      then (0, Some (DecodeError ErrSyntax))
      else
        let d = (if of_char CHR ''0'' \<le> b \<and> b \<le> of_char CHR ''9''
                 then b - of_char CHR ''0'' else lower b - of_char CHR ''a'' + 10) in
        if d \<ge> 16 then (0, Some (DecodeError ErrSyntax))
        else if n \<ge> 2 ^ 60 then (- 1, Some (DecodeError ErrUint64Range))
        else
          let n16 = n * 16; n1 = n16 + of_nat d in
          if n1 < n16 then (- 1, Some (DecodeError ErrUint64Range))
          else parse_loop n1 cs)"

definition ParseUint :: "string \<Rightarrow> 64 word \<times> error option" where
  "ParseUint s =
     (if s = [] then (0, Some (DecodeError ErrSyntax)) else parse_loop 0 s)"

definition DecodeUint64 :: "string \<Rightarrow> 64 word \<times> error option" where
  "DecodeUint64 input =
     (case checkNumber input of
        (raw, Some err) \<Rightarrow> (0, Some err)
      | (raw, None) \<Rightarrow> ParseUint raw)"

text \<open>
  A hex-encoded quantity, as the node sends it: the prefix \<^verbatim>\<open>0x\<close> or \<^verbatim>\<open>0X\<close> and at
  least one hexadecimal digit. A response that is not of this form is malformed.
\<close>

definition hex_digit :: "char \<Rightarrow> bool" where
  "hex_digit c \<longleftrightarrow> c \<in> set ''0123456789abcdefABCDEF''"

fun hex_encoded :: "string \<Rightarrow> bool" where
  "hex_encoded (z # x # d # ds) \<longleftrightarrow>
     z = CHR ''0'' \<and> (x = CHR ''x'' \<or> x = CHR ''X'') \<and> list_all hex_digit (d # ds)"
| "hex_encoded _ \<longleftrightarrow> False"

text \<open>
  The number that a string of hexadecimal digits denotes, most significant digit first,
  with the value of a digit read off a table of the digits.
\<close>

definition hex_digit_value :: "char \<Rightarrow> nat" where
  "hex_digit_value c =
     (case map_of (zip ''0123456789abcdef'' [0..<16] @ zip ''ABCDEF'' [10..<16]) c of
        Some v \<Rightarrow> v
      | None \<Rightarrow> 0)"

definition hex_value :: "string \<Rightarrow> nat" where
  "hex_value ds = foldl (\<lambda>n c. 16 * n + hex_digit_value c) 0 ds"

text \<open>
  A quantity as the JSON-RPC interface of the node encodes it: hex-encoded, with no
  leading zero digit (zero itself is \<^verbatim>\<open>0x0\<close>). A balance is a 256-bit number, at most
  64 digits after the prefix; a transaction count is a 64-bit number.
\<close>

definition hex_quantity :: "string \<Rightarrow> bool" where
  "hex_quantity s \<longleftrightarrow> hex_encoded s \<and> (length s = 3 \<or> s ! 2 \<noteq> CHR ''0'')"

section \<open>Account balance and nonce\<close>

text \<open>\<^verbatim>\<open>AccountBalance\<close> (lines 158-175 of the listing). Logging is left out.\<close>

definition AccountBalance :: "FtmBridge \<Rightarrow> Address \<Rightarrow> hexutil_Big option \<times> error option" where
  "AccountBalance ftm addr =
     (case Call (rpc ftm) ''ftm_getBalance'' addr ''latest'' of
        (balance, Some err) \<Rightarrow> (None, Some err)
      | (balance, None) \<Rightarrow>
          (case DecodeBig balance of
             (val, Some err) \<Rightarrow> (None, Some err)
           | (val, None) \<Rightarrow> (val, None)))"

text \<open>\<^verbatim>\<open>AccountNonce\<close> (lines 178-195 of the listing).\<close>

definition AccountNonce :: "FtmBridge \<Rightarrow> Address \<Rightarrow> 64 word \<times> error option" where
  "AccountNonce ftm addr =
     (case Call (rpc ftm) ''ftm_getTransactionCount'' addr ''latest'' of
        (nonce, Some err) \<Rightarrow> (0, Some err)
      | (nonce, None) \<Rightarrow>
          (case DecodeUint64 nonce of
             (val, Some err) \<Rightarrow> (0, Some err)
           | (val, None) \<Rightarrow> (val, None)))"

text \<open>A bridge whose node answers every call with the given string and no error.\<close>

definition stub_bridge :: "string \<Rightarrow> FtmBridge" where
  "stub_bridge response =
     \<lparr> rpc = \<lparr> Call = (\<lambda>method addr tag. (response, None)) \<rparr>,
       fMintCfg = \<lparr> addressProvider = 0,
                    fMintMinterContract = (None, Some (TransportError ''no contract'')),
                    mustContractAddress = (\<lambda>name. 0) \<rparr> \<rparr>"

section \<open>The token resolver\<close>

text \<open>
  \<^verbatim>\<open>types.Erc20Token\<close> with the field the resolvers read, and the resolvable
  \<^verbatim>\<open>ERC20Token\<close> that embeds it (erc20.go, lines 12-14). The repository is reached
  through the accessor \<^verbatim>\<open>repository.R()\<close>; here it is a record holding what its
  \<^verbatim>\<open>Erc20Token\<close> method returns for an address.
\<close>

record types_Erc20Token =
  Address :: Address

datatype ERC20Token = ERC20Token types_Erc20Token

record Repository =
  Erc20Token :: "Address \<Rightarrow> types_Erc20Token option \<times> error option"

text \<open>
  \<^verbatim>\<open>NewErc20Token\<close> (erc20.go, lines 19-27). Its only result is the pointer
  \<^verbatim>\<open>*ERC20Token\<close>; \<^verbatim>\<open>*erc20\<close> dereferences the pointer the repository returned.
\<close>

definition NewErc20Token :: "Repository \<Rightarrow> Address \<Rightarrow> panic + ERC20Token option" where
  "NewErc20Token R adr =
     (case Erc20Token R adr of
        (erc20, Some err) \<Rightarrow> Inr None
      | (None, None) \<Rightarrow> Inl NilPointerDereference
      | (Some t, None) \<Rightarrow> Inr (Some (ERC20Token t)))"


section \<open>Example values\<close>

text \<open>
  Modelled from the spec: the body of \<^verbatim>\<open>fMintConfig.mustContractAddress\<close> is not
  among the files at hand. The spec has a contract address as a 20-byte identifier with a
  case-insensitive textual form that is trusted as written and never fetched remotely:
  the address is the number that the hexadecimal digits after the two-character prefix
  denote, and a text with any other character denotes the zero address.
\<close>

definition address_of_text :: "string \<Rightarrow> Address" where
  "address_of_text s =
     (case big_of_nibbles 0 (drop 2 s) of Some n \<Rightarrow> word_of_nat n | None \<Rightarrow> 0)"

text \<open>The default of the configuration key for the fMint address provider
  (default.go, lines 71-72 and 144).\<close>

definition defDefiFMintAddressProvider :: string where
  "defDefiFMintAddressProvider = ''0x08aa8b88721853c62cc8192da8f24aeb94aaeb66''"

text \<open>The seven address fields of a settings record, in the order of the record.\<close>

definition addresses :: "DefiSettings \<Rightarrow> Address list" where
  "addresses ds =
     [FMintContract ds, FMintAddressProvider ds, FMintTokenRegistry ds,
      FMintRewardDistribution ds, FMintCollateralPool ds, FMintDebtPool ds,
      PriceOracleAggregate ds]"

text \<open>A getter that yields a value, and one that fails with an error.\<close>

definition ok :: "big_Int \<Rightarrow> loader" where
  "ok v = (\<lambda>opts. (Some v, None))"

definition failing :: "error \<Rightarrow> loader" where
  "failing e = (\<lambda>opts. (None, Some e))"

text \<open>A binding with the given getters for the fee and the two ratios, and the digits
  correction 10000.\<close>

definition minter :: "loader \<Rightarrow> loader \<Rightarrow> loader \<Rightarrow> DefiFMintMinter" where
  "minter fee ratio reward =
     \<lparr> GetFMintFee4dec = fee,
       GetCollateralLowestDebtRatio4dec = ratio,
       GetRewardEligibilityRatio4dec = reward,
       FMintFeeDigitsCorrection = ok 10000 \<rparr>"

text \<open>
  A bridge configured with the default address provider, whose configuration hands out
  the given binding and reads a contract address from its text.
\<close>

definition bridge_with :: "DefiFMintMinter \<Rightarrow> FtmBridge" where
  "bridge_with contract =
     \<lparr> rpc = \<lparr> Call = (\<lambda>method addr tag. ([], Some (TransportError ''not connected''))) \<rparr>,
       fMintCfg = \<lparr> addressProvider = address_of_text defDefiFMintAddressProvider,
                    fMintMinterContract = (Some contract, None),
                    mustContractAddress = address_of_text \<rparr> \<rparr>"

text \<open>The order in which the loader table is written in the source.\<close>

definition declared_order :: "ref list" where
  "declared_order = [Ref_MintFee4, Ref_MinCollateralRatio4, Ref_RewardCollateralRatio4]"

text \<open>The settings of the bridge above when the fee is 25 and the ratios are 30000 and
  50000.\<close>

definition example_settings :: DefiSettings where
  "example_settings =
     \<lparr> FMintContract = 0x4acb55fe5f0b7c487edec3862079aa36ab054358,
       FMintAddressProvider = 0xdeec401e448d5d9132eb79ac84eb3f212d7759fb,
       FMintTokenRegistry = 0x60092e344c63c6628ec77926e508f9a9c80553ef,
       FMintRewardDistribution = 0x0039597eb5aa5760e8db15fbe525e56aa661ef26,
       FMintCollateralPool = 0x6d5f2f2e391f47a1075df4d39a24286c63c0e70c,
       FMintDebtPool = 0xe2d1105f35649bf16deebccec1f2100dcb9aadf5,
       PriceOracleAggregate = 0xA1EA42f737bb2E09b0AE4DE001eE06e3BC484fE5,
       MintFee4 = 25,
       MinCollateralRatio4 = 30000,
       RewardCollateralRatio4 = 50000,
       Decimals = 4 \<rparr>"

text \<open>A repository whose \<^verbatim>\<open>Erc20Token\<close> returns the given outcome for every address.\<close>

definition probe_repository :: "types_Erc20Token option \<times> error option \<Rightarrow> Repository" where
  "probe_repository outcome = \<lparr> Erc20Token = (\<lambda>adr. outcome) \<rparr>"

section \<open>Lemmas on the decimals loop\<close>

lemma decimals_loop_iterates:
  "\<exists>n. decimals_loop v d = (((\<lambda>x. x div 10) ^^ n) v, d + of_nat n)
       \<and> ((\<lambda>x. x div 10) ^^ n) v \<le> 1"
proof (induction v d rule: decimals_loop.induct)
  case (1 v dec)
  show ?case
  proof (cases "1 < v")
    case True
    from 1 [OF True] obtain n where
      n: "decimals_loop (v div 10) (dec + 1)
            = (((\<lambda>x. x div 10) ^^ n) (v div 10), dec + 1 + of_nat n)"
         "((\<lambda>x. x div 10) ^^ n) (v div 10) \<le> 1"
      by blast
    have "decimals_loop v dec = (((\<lambda>x. x div 10) ^^ Suc n) v, dec + of_nat (Suc n))"
      using True n(1)
      by (simp add: decimals_loop.simps [of v dec] funpow_Suc_right del: funpow.simps)
    moreover have "((\<lambda>x. x div 10) ^^ Suc n) v \<le> 1"
      using n(2) by (simp add: funpow_Suc_right del: funpow.simps)
    ultimately show ?thesis by blast
  next
    case False
    then have "decimals_loop v dec = (((\<lambda>x. x div 10) ^^ 0) v, dec + of_nat 0)"
      by (simp add: decimals_loop.simps [of v dec])
    moreover have "((\<lambda>x. x div 10) ^^ 0) v \<le> 1"
      using False by (simp add: not_less)
    ultimately show ?thesis by blast
  qed
qed

lemma nat_division_reaches_one: "\<exists>n. ((\<lambda>x. x div 10) ^^ n) (k::nat) \<le> 1"
proof (induction k rule: less_induct)
  case (less k)
  show ?case
  proof (cases "1 < k")
    case True
    then have "k div 10 < k" by simp
    from less [OF this] obtain n where "((\<lambda>x. x div 10) ^^ n) (k div 10) \<le> 1" ..
    then have "((\<lambda>x. x div 10) ^^ Suc n) k \<le> 1"
      by (simp add: funpow_Suc_right del: funpow.simps)
    then show ?thesis ..
  next
    case False
    then have "((\<lambda>x. x div 10) ^^ 0) k \<le> 1" by simp
    then show ?thesis ..
  qed
qed

lemma decimals_loop_digit_count:
  "snd (decimals_loop v d) = d + of_nat (digit_count (unat v))"
proof (induction v d rule: decimals_loop.induct)
  case (1 v dec)
  show ?case
  proof (cases "1 < v")
    case True
    then have u: "1 < unat v" by (simp add: word_less_nat_alt)
    have "snd (decimals_loop v dec) = snd (decimals_loop (v div 10) (dec + 1))"
      using True by (simp add: decimals_loop.simps [of v dec])
    also have "\<dots> = dec + 1 + of_nat (digit_count (unat (v div 10)))"
      using 1 [OF True] .
    also have "\<dots> = dec + of_nat (digit_count (unat v))"
      using u by (simp add: digit_count.simps [of "unat v"] unat_div)
    finally show ?thesis .
  next
    case False
    then have u: "\<not> 1 < unat v" by (simp add: word_less_nat_alt)
    show ?thesis
      using False u
      by (simp add: decimals_loop.simps [of v dec] digit_count.simps [of "unat v"])
  qed
qed

lemma digit_count_le: "n < 10 ^ k \<Longrightarrow> digit_count n \<le> k"
proof (induction k arbitrary: n)
  case 0
  then show ?case by (simp add: digit_count.simps [of 0])
next
  case (Suc k)
  show ?case
  proof (cases "1 < n")
    case True
    from Suc.prems have "n div 10 < 10 ^ k" by simp
    then have "digit_count (n div 10) \<le> k" by (rule Suc.IH)
    with True show ?thesis by (simp add: digit_count.simps [of n])
  next
    case False
    then show ?thesis by (simp add: digit_count.simps [of n])
  qed
qed

lemma digit_count_64_le: "n < 2 ^ 64 \<Longrightarrow> digit_count n \<le> 20"
proof -
  assume "n < 2 ^ 64"
  also have "(2::nat) ^ 64 < 10 ^ 20" by simp
  finally show ?thesis by (rule digit_count_le)
qed

lemma unat_Uint64: "0 \<le> x \<Longrightarrow> unat (Uint64 x) = nat x mod 2 ^ 64"
  by (simp add: Uint64_def unat_eq_nat_uint uint_word_of_int nat_mod_distrib)

lemma sint_small: "m \<le> 20 \<Longrightarrow> sint (of_nat m :: 32 word) = int m"
  by (simp add: signed_of_nat signed_take_bit_int_eq_self)

lemma digit_count_numeral:
  "digit_count (numeral k) =
     (if 1 < (numeral k :: nat) then Suc (digit_count (numeral k div 10)) else 0)"
  by (rule digit_count.simps)

lemma digit_count_0: "digit_count 0 = 0"
  by (simp add: digit_count.simps [of 0])

lemma digit_count_1: "digit_count (Suc 0) = 0"
  by (simp add: digit_count.simps [of "Suc 0"])

lemma pullDefiDecimalCorrection_value:
  assumes "FMintFeeDigitsCorrection con None = (Some s, None)"
  shows "pullDefiDecimalCorrection con = (of_nat (digit_count (unat (Uint64 s))), None)"
  using assms
  by (simp add: pullDefiDecimalCorrection_def pullDefiConfigValue_def
      decimals_loop_digit_count)


section \<open>Properties of the decimals correction and of a single pull\<close>

text \<open>
  C6. When the loader succeeds (its error is nil) but its value is nil,
  \<^verbatim>\<open>pullDefiConfigValue\<close> returns the error "defi config value not available";
  and whenever it returns without an error, the loader produced a non-nil value with a
  nil error and that value is the one returned.
\<close>

theorem pullDefiConfigValue_nil_is_error:
  "(cf None = (None, None) \<longrightarrow>
      snd (pullDefiConfigValue cf) = Some (Errorf ''defi config value not available''))
   \<and> (snd (pullDefiConfigValue cf) = None \<longrightarrow>
      cf None = (Some (fst (pullDefiConfigValue cf)), None))"
  by (auto simp: pullDefiConfigValue_def split: prod.splits option.splits)

theorem pullDefiConfigValue_nil_is_error_witness:
  "snd (pullDefiConfigValue (\<lambda>_. (None, None)))
     = Some (Errorf ''defi config value not available'')
   \<and> (\<lambda>_::CallOpts option. (Some (7::int), None::error option)) None
     = (Some (fst (pullDefiConfigValue (\<lambda>_. (Some 7, None)))), None)"
  using pullDefiConfigValue_nil_is_error [of "\<lambda>_. (None, None)"]
    pullDefiConfigValue_nil_is_error [of "\<lambda>_. (Some 7, None)"]
  by (simp add: pullDefiConfigValue_def)

text \<open>
  C2. The decimals correction divides the fetched scale factor by 10 while it is greater
  than 1 and counts the divisions: a fetched 10 gives 1, 10000 gives 4, 1 gives 0 and
  0 gives 0, each without an error.
\<close>

theorem decimal_correction_examples:
  "pullDefiDecimalCorrection (digits_contract 10) = (1, None)
   \<and> pullDefiDecimalCorrection (digits_contract 10000) = (4, None)
   \<and> pullDefiDecimalCorrection (digits_contract 1) = (0, None)
   \<and> pullDefiDecimalCorrection (digits_contract 0) = (0, None)"
  by (simp add: pullDefiDecimalCorrection_value [where s = 10]
      pullDefiDecimalCorrection_value [where s = 10000]
      pullDefiDecimalCorrection_value [where s = 1]
      pullDefiDecimalCorrection_value [where s = 0]
      digits_contract_def Uint64_def digit_count_numeral digit_count_0 digit_count_1)

text \<open>
  C8. The loop of the decimals correction ends for every starting value: from any
  64-bit value \<open>v\<close> and any counter \<open>d\<close> it returns after some number \<open>n\<close> of
  divisions by 10, with the value then at most 1 and the counter advanced by \<open>n\<close>; and
  from any natural number, bounded or not, finitely many divisions by 10 reach a value of
  at most 1.
\<close>

theorem decimals_loop_terminates:
  "(\<exists>n. decimals_loop v d = (((\<lambda>x. x div 10) ^^ n) v, d + of_nat n)
        \<and> ((\<lambda>x. x div 10) ^^ n) v \<le> 1)
   \<and> (\<exists>n. ((\<lambda>x. x div 10) ^^ n) (k::nat) \<le> 1)"
  using decimals_loop_iterates [of v d] nat_division_reaches_one [of k] by blast

text \<open>
  C10. The decimals correction counts on the fetched value cut to 64 bits: for a fetched
  scale factor \<open>s \<ge> 0\<close> the count returned (read as a signed 32-bit number) is the
  count of \<open>s mod 2^64\<close>, and for \<open>s < 2^64\<close> it is the count of \<open>s\<close> itself.
\<close>

theorem decimal_correction_truncates:
  assumes "FMintFeeDigitsCorrection con None = (Some s, None)" and "0 \<le> s"
  shows "snd (pullDefiDecimalCorrection con) = None
    \<and> sint (fst (pullDefiDecimalCorrection con)) = int (digit_count (nat s mod 2 ^ 64))
    \<and> (s < 2 ^ 64 \<longrightarrow>
         sint (fst (pullDefiDecimalCorrection con)) = int (digit_count (nat s)))"
proof -
  have v: "pullDefiDecimalCorrection con = (of_nat (digit_count (nat s mod 2 ^ 64)), None)"
    using pullDefiDecimalCorrection_value [OF assms(1)] unat_Uint64 [OF assms(2)] by simp
  have "digit_count (nat s mod 2 ^ 64) \<le> 20"
    by (rule digit_count_64_le) simp
  then have c: "sint (fst (pullDefiDecimalCorrection con)) = int (digit_count (nat s mod 2 ^ 64))"
    by (simp add: v sint_small)
  have "sint (fst (pullDefiDecimalCorrection con)) = int (digit_count (nat s))"
    if "s < 2 ^ 64"
  proof -
    from that assms(2) have "nat s mod 2 ^ 64 = nat s" by (simp add: nat_less_iff)
    with c show ?thesis by simp
  qed
  with c v show ?thesis by simp
qed

text \<open>
  At the fetched value \<open>2^64 + 10000\<close> the count returned is 4, the count of 10000,
  while the count of the value itself is 19; at 10000 it is 4.
\<close>

theorem decimal_correction_truncates_witness:
  "FMintFeeDigitsCorrection (digits_contract (2 ^ 64 + 10000)) None
     = (Some (2 ^ 64 + 10000), None)
   \<and> (0::int) \<le> 2 ^ 64 + 10000
   \<and> sint (fst (pullDefiDecimalCorrection (digits_contract (2 ^ 64 + 10000)))) = 4
   \<and> digit_count (2 ^ 64 + 10000) = 19
   \<and> (10000::int) < 2 ^ 64
   \<and> sint (fst (pullDefiDecimalCorrection (digits_contract 10000))) = 4"
proof -
  have a: "FMintFeeDigitsCorrection (digits_contract (2 ^ 64 + 10000)) None
             = (Some (2 ^ 64 + 10000), None)"
    by (simp add: digits_contract_def)
  have b: "FMintFeeDigitsCorrection (digits_contract 10000) None = (Some 10000, None)"
    by (simp add: digits_contract_def)
  have c: "(0::int) \<le> 2 ^ 64 + 10000" "(0::int) \<le> 10000" "(10000::int) < 2 ^ 64"
    by simp_all
  have d: "digit_count 10000 = 4" "digit_count (2 ^ 64 + 10000) = 19"
    by (simp_all add: digit_count_numeral digit_count_0 digit_count_1)
  have e: "nat (2 ^ 64 + 10000) mod 2 ^ 64 = (10000::nat)"
    by simp
  show ?thesis
    using decimal_correction_truncates [OF a c(1)] decimal_correction_truncates [OF b c(2)]
      a c d e
    by simp
qed

section \<open>Lemmas on the aggregation\<close>

lemmas eval_defs = DefiConfiguration_def bridge_with_def minter_def ok_def failing_def
  declared_order_def config_loaders_def pullDefiConfigValue_def first_failing_def
  fails_def loader_error_def

lemma pullSet_error:
  "snd (pullSetOfDefiConfigValues loaders order ds) =
     (case first_failing loaders order of None \<Rightarrow> None | Some r \<Rightarrow> loader_error loaders r)"
proof (induction order arbitrary: ds)
  case Nil
  show ?case by (simp add: first_failing_def)
next
  case (Cons r order)
  show ?case
  proof (cases "loaders r")
    case None
    then have "\<not> fails loaders r" by (simp add: fails_def loader_error_def)
    with None Cons.IH [of ds] show ?thesis by (simp add: first_failing_def)
  next
    case (Some fn)
    obtain v e where p: "pullDefiConfigValue fn = (v, e)" by (cases "pullDefiConfigValue fn")
    show ?thesis
    proof (cases e)
      case None
      with Some p have "\<not> fails loaders r" by (simp add: fails_def loader_error_def)
      with Some p None Cons.IH [of "assign r v ds"] show ?thesis
        by (simp add: first_failing_def)
    next
      case (Some err)
      with \<open>loaders r = Some fn\<close> p have "fails loaders r" "loader_error loaders r = Some err"
        by (simp_all add: fails_def loader_error_def)
      with \<open>loaders r = Some fn\<close> p Some show ?thesis
        by (simp add: first_failing_def)
    qed
  qed
qed

lemma assign_addresses:
  "FMintContract (assign r v ds) = FMintContract ds"
  "FMintAddressProvider (assign r v ds) = FMintAddressProvider ds"
  "FMintTokenRegistry (assign r v ds) = FMintTokenRegistry ds"
  "FMintRewardDistribution (assign r v ds) = FMintRewardDistribution ds"
  "FMintCollateralPool (assign r v ds) = FMintCollateralPool ds"
  "FMintDebtPool (assign r v ds) = FMintDebtPool ds"
  "PriceOracleAggregate (assign r v ds) = PriceOracleAggregate ds"
  by (cases r; simp)+

lemma pullSet_addresses:
  "addresses (fst (pullSetOfDefiConfigValues loaders order ds)) = addresses ds"
proof (induction order arbitrary: ds)
  case Nil
  show ?case by simp
next
  case (Cons r order)
  have a: "addresses (assign r v ds) = addresses ds" for v
    by (simp add: addresses_def assign_addresses)
  show ?case
    using Cons.IH a
    by (simp split: option.splits prod.splits)
qed


lemma address_of_text_literals:
  "address_of_text ''0x4acb55fe5f0b7c487edec3862079aa36ab054358''
     = 0x4acb55fe5f0b7c487edec3862079aa36ab054358"
  "address_of_text ''0xdeec401e448d5d9132eb79ac84eb3f212d7759fb''
     = 0xdeec401e448d5d9132eb79ac84eb3f212d7759fb"
  "address_of_text ''0x60092e344c63c6628ec77926e508f9a9c80553ef''
     = 0x60092e344c63c6628ec77926e508f9a9c80553ef"
  "address_of_text ''0x0039597eb5aa5760e8db15fbe525e56aa661ef26''
     = 0x0039597eb5aa5760e8db15fbe525e56aa661ef26"
  "address_of_text ''0x6d5f2f2e391f47a1075df4d39a24286c63c0e70c''
     = 0x6d5f2f2e391f47a1075df4d39a24286c63c0e70c"
  "address_of_text ''0xe2d1105f35649bf16deebccec1f2100dcb9aadf5''
     = 0xe2d1105f35649bf16deebccec1f2100dcb9aadf5"
  "address_of_text ''0xA1EA42f737bb2E09b0AE4DE001eE06e3BC484fE5''
     = 0xA1EA42f737bb2E09b0AE4DE001eE06e3BC484fE5"
  "address_of_text defDefiFMintAddressProvider = 0x08aa8b88721853c62cc8192da8f24aeb94aaeb66"
  by (simp_all add: address_of_text_def decodeNibble_def defDefiFMintAddressProvider_def)

lemma default_address_provider:
  "addressProvider (fMintCfg (bridge_with k)) = 0x08aa8b88721853c62cc8192da8f24aeb94aaeb66"
  by (simp add: bridge_with_def address_of_text_literals)

lemma example_configuration:
  "DefiConfiguration (bridge_with (minter (ok 25) (ok 30000) (ok 50000))) declared_order
     = Inr (Some example_settings, None)"
proof -
  have d: "pullDefiDecimalCorrection (minter (ok 25) (ok 30000) (ok 50000)) = (4, None)"
    by (simp add: pullDefiDecimalCorrection_value [where s = 10000] minter_def ok_def
        Uint64_def digit_count_numeral digit_count_0 digit_count_1)
  have c: "container (fMintCfg (bridge_with k)) =
      example_settings \<lparr> MintFee4 := 0, MinCollateralRatio4 := 0,
        RewardCollateralRatio4 := 0, Decimals := 0 \<rparr>" for k
    by (simp add: container_def bridge_with_def address_of_text_literals example_settings_def)
  have m: "fMintMinterContract (fMintCfg (bridge_with k)) = (Some k, None)" for k
    by (simp add: bridge_with_def)
  show ?thesis
    by (simp add: DefiConfiguration_def m c d)
       (simp add: minter_def ok_def declared_order_def config_loaders_def
          pullDefiConfigValue_def example_settings_def)
qed

section \<open>Lemmas on the hex decoders\<close>

lemma lower_eq: "lower b = (if bit b 5 then b else b + 32)"
proof -
  have "b OR 32 = set_bit 5 b" by (simp add: set_bit_eq_or)
  then show ?thesis by (simp add: lower_def set_bit_eq)
qed

lemma hex_digit_iff:
  "hex_digit c \<longleftrightarrow>
     (48 \<le> (of_char c :: nat) \<and> (of_char c :: nat) \<le> 57)
     \<or> (65 \<le> (of_char c :: nat) \<and> (of_char c :: nat) \<le> 70)
     \<or> (97 \<le> (of_char c :: nat) \<and> (of_char c :: nat) \<le> 102)"
  (is "?l \<longleftrightarrow> ?r")
proof
  assume ?l
  then show ?r by (auto simp: hex_digit_def)
next
  assume r: ?r
  define n where "n = (of_char c :: nat)"
  have c: "c = char_of n" by (simp add: n_def)
  from r have "n \<in> {48, 49, 50, 51, 52, 53, 54, 55, 56, 57, 65, 66, 67, 68, 69, 70,
      97, 98, 99, 100, 101, 102}"
    unfolding n_def [symmetric] by (simp; arith)
  then have "\<exists>d \<in> set ''0123456789abcdefABCDEF''. (of_char d :: nat) = n"
    by (elim insertE emptyE) simp_all
  then obtain d where d: "d \<in> set ''0123456789abcdefABCDEF''" "(of_char d :: nat) = of_char c"
    unfolding n_def by blast
  from d(2) have "d = c" by (simp only: of_char_eq_iff)
  with d(1) show ?l by (simp only: hex_digit_def)
qed

lemma decodeNibble_None_iff: "decodeNibble c = None \<longleftrightarrow> \<not> hex_digit c"
  by (auto simp: decodeNibble_def hex_digit_iff Let_def)

lemma big_of_nibbles_None:
  "\<not> list_all hex_digit cs \<Longrightarrow> big_of_nibbles acc cs = None"
proof (induction cs arbitrary: acc)
  case Nil
  then show ?case by simp
next
  case (Cons c cs)
  show ?case
  proof (cases "decodeNibble c")
    case None
    then show ?thesis by simp
  next
    case (Some nib)
    then have "hex_digit c" using decodeNibble_None_iff [of c] by auto
    with Cons.prems have "\<not> list_all hex_digit cs" by simp
    with Some Cons.IH show ?thesis by simp
  qed
qed

lemma parse_loop_bad_digit:
  "\<not> hex_digit c \<Longrightarrow> parse_loop n (c # cs) = (0, Some (DecodeError ErrSyntax))"
  by (auto simp: hex_digit_iff lower_eq Let_def)

lemma parse_loop_error:
  "\<not> list_all hex_digit cs \<Longrightarrow> \<exists>v e. parse_loop n cs = (v, Some e)"
proof (induction cs arbitrary: n)
  case Nil
  then show ?case by simp
next
  case (Cons c cs)
  show ?case
  proof (cases "hex_digit c")
    case False
    from parse_loop_bad_digit [OF this, of n cs] show ?thesis by blast
  next
    case True
    with Cons.prems have "\<not> list_all hex_digit cs" by simp
    from Cons.IH [OF this] show ?thesis
      by (auto simp: Let_def)
  qed
qed

lemma checkNumber_raw:
  assumes "checkNumber s = (raw, None)" and "\<not> hex_encoded s"
  shows "raw \<noteq> [] \<and> \<not> list_all hex_digit raw"
  using assms
  by (cases s rule: hex_encoded.cases)
     (auto simp: checkNumber_def has0xPrefix_def Let_def split: if_splits)

lemma DecodeBig_malformed:
  assumes "\<not> hex_encoded s"
  shows "\<exists>e. DecodeBig s = (None, Some e)"
proof (cases "checkNumber s")
  case (Pair raw err)
  show ?thesis
  proof (cases err)
    case None
    with Pair assms have "\<not> list_all hex_digit raw" using checkNumber_raw by blast
    then have "big_of_nibbles 0 raw = None" by (rule big_of_nibbles_None)
    with Pair None show ?thesis by (simp add: DecodeBig_def)
  next
    case (Some e)
    with Pair show ?thesis by (simp add: DecodeBig_def)
  qed
qed

lemma DecodeUint64_malformed:
  assumes "\<not> hex_encoded s"
  shows "\<exists>v e. DecodeUint64 s = (v, Some e)"
proof (cases "checkNumber s")
  case (Pair raw err)
  show ?thesis
  proof (cases err)
    case None
    with Pair assms have r: "raw \<noteq> []" "\<not> list_all hex_digit raw"
      using checkNumber_raw by blast+
    from parse_loop_error [OF r(2), of 0] r(1) Pair None show ?thesis
      by (simp add: DecodeUint64_def ParseUint_def)
  next
    case (Some e)
    with Pair show ?thesis by (simp add: DecodeUint64_def)
  qed
qed

lemma upt16: "[0..<16] = [0,1,2,3,4,5,6,7,8,9,10,11,12,13,14,15]"
  "[10..<16] = [10,11,12,13,14,15]"
  by (simp_all add: upt_rec)

lemma hex_digit_cases:
  assumes "hex_digit c"
  shows "decodeNibble c = Some (hex_digit_value c)"
    and "hex_digit_value c < 16"
    and "parse_loop n (c # cs) =
      (if n \<ge> 2 ^ 60 then (- 1, Some (DecodeError ErrUint64Range))
       else if n * 16 + of_nat (hex_digit_value c) < n * 16
         then (- 1, Some (DecodeError ErrUint64Range))
         else parse_loop (n * 16 + of_nat (hex_digit_value c)) cs)"
proof -
  from assms have c: "c = CHR ''0'' \<or> c = CHR ''1'' \<or> c = CHR ''2'' \<or> c = CHR ''3''
     \<or> c = CHR ''4'' \<or> c = CHR ''5'' \<or> c = CHR ''6'' \<or> c = CHR ''7'' \<or> c = CHR ''8''
     \<or> c = CHR ''9'' \<or> c = CHR ''a'' \<or> c = CHR ''b'' \<or> c = CHR ''c'' \<or> c = CHR ''d''
     \<or> c = CHR ''e'' \<or> c = CHR ''f'' \<or> c = CHR ''A'' \<or> c = CHR ''B'' \<or> c = CHR ''C''
     \<or> c = CHR ''D'' \<or> c = CHR ''E'' \<or> c = CHR ''F''"
    by (simp add: hex_digit_def)
  from c show "decodeNibble c = Some (hex_digit_value c)"
    by (elim disjE) (simp_all add: decodeNibble_def hex_digit_value_def upt16)
  from c show "hex_digit_value c < 16"
    by (elim disjE) (simp_all add: hex_digit_value_def upt16)
  from c show "parse_loop n (c # cs) =
      (if n \<ge> 2 ^ 60 then (- 1, Some (DecodeError ErrUint64Range))
       else if n * 16 + of_nat (hex_digit_value c) < n * 16
         then (- 1, Some (DecodeError ErrUint64Range))
         else parse_loop (n * 16 + of_nat (hex_digit_value c)) cs)"
    by (elim disjE) (simp_all add: hex_digit_value_def upt16 lower_def Let_def)
qed


lemma unat_of_nat64: "r < 2 ^ 64 \<Longrightarrow> unat (of_nat r :: 64 word) = r"
  by (simp add: unat_of_nat)

lemma hex_fold_ge: "acc \<le> foldl (\<lambda>n c. 16 * n + hex_digit_value c) acc cs"
proof (induction cs arbitrary: acc)
  case Nil
  show ?case by simp
next
  case (Cons c cs)
  have "acc \<le> 16 * acc + hex_digit_value c" by simp
  also have "\<dots> \<le> foldl (\<lambda>n c. 16 * n + hex_digit_value c) (16 * acc + hex_digit_value c) cs"
    by (rule Cons.IH)
  finally show ?case by simp
qed

lemma big_of_nibbles_value:
  "list_all hex_digit cs \<Longrightarrow>
     big_of_nibbles acc cs = Some (foldl (\<lambda>n c. 16 * n + hex_digit_value c) acc cs)"
proof (induction cs arbitrary: acc)
  case Nil
  show ?case by simp
next
  case (Cons c cs)
  then have "hex_digit c" "list_all hex_digit cs" by simp_all
  with Cons.IH [of "acc * 16 + hex_digit_value c"] show ?case
    by (simp add: hex_digit_cases(1) mult.commute)
qed

lemma parse_loop_value:
  "list_all hex_digit cs \<Longrightarrow>
   foldl (\<lambda>n c. 16 * n + hex_digit_value c) acc cs < 2 ^ 64 \<Longrightarrow>
   parse_loop (of_nat acc) cs
     = (of_nat (foldl (\<lambda>n c. 16 * n + hex_digit_value c) acc cs), None)"
proof (induction cs arbitrary: acc)
  case Nil
  show ?case by simp
next
  case (Cons c cs)
  let ?d = "hex_digit_value c"
  let ?a = "16 * acc + ?d"
  from Cons.prems have h: "hex_digit c" "list_all hex_digit cs" by simp_all
  from Cons.prems(2) have v: "foldl (\<lambda>n c. 16 * n + hex_digit_value c) ?a cs < 2 ^ 64"
    by simp
  with hex_fold_ge [of ?a cs] have a: "?a < 2 ^ 64" by simp
  then have acc: "acc < 2 ^ 60" by simp
  then have acc64: "acc < 2 ^ 64" "acc * 16 < 2 ^ 64" by simp_all
  have u1: "unat (of_nat acc :: 64 word) = acc"
    using acc64(1) by (rule unat_of_nat64)
  have u2: "unat (of_nat acc * 16 + of_nat ?d :: 64 word) = acc * 16 + ?d"
  proof -
    have "(of_nat acc * 16 + of_nat ?d :: 64 word) = of_nat (acc * 16 + ?d)" by simp
    moreover have "acc * 16 + ?d < 2 ^ 64" using a by (simp add: mult.commute)
    ultimately show ?thesis by (simp only: unat_of_nat64)
  qed
  have u3: "unat (of_nat acc * 16 :: 64 word) = acc * 16"
  proof -
    have "(of_nat acc * 16 :: 64 word) = of_nat (acc * 16)" by simp
    with acc64(2) show ?thesis by (simp only: unat_of_nat64)
  qed
  have t1: "\<not> (2 ^ 60 \<le> (of_nat acc :: 64 word))"
    using acc by (simp add: word_le_nat_alt u1)
  have t2: "\<not> (of_nat acc * 16 + of_nat ?d < (of_nat acc * 16 :: 64 word))"
    by (simp add: word_less_nat_alt u2 u3)
  have "parse_loop (of_nat acc) (c # cs) = parse_loop (of_nat acc * 16 + of_nat ?d) cs"
    using t1 t2 by (simp add: hex_digit_cases(3) [OF h(1)] del: parse_loop.simps)
  also have "(of_nat acc * 16 + of_nat ?d :: 64 word) = of_nat ?a" by simp
  also have "parse_loop (of_nat ?a) cs
      = (of_nat (foldl (\<lambda>n c. 16 * n + hex_digit_value c) ?a cs), None)"
    using h(2) v by (rule Cons.IH)
  finally show ?case by simp
qed

lemma parse_loop_range:
  "list_all hex_digit cs \<Longrightarrow> acc < 2 ^ 64 \<Longrightarrow>
   2 ^ 64 \<le> foldl (\<lambda>n c. 16 * n + hex_digit_value c) acc cs \<Longrightarrow>
   \<exists>v e. parse_loop (of_nat acc) cs = (v, Some e)"
proof (induction cs arbitrary: acc)
  case Nil
  then show ?case by simp
next
  case (Cons c cs)
  let ?d = "hex_digit_value c"
  let ?a = "16 * acc + ?d"
  from Cons.prems have h: "hex_digit c" "list_all hex_digit cs" by simp_all
  have u1: "unat (of_nat acc :: 64 word) = acc"
    using Cons.prems(2) by (rule unat_of_nat64)
  show ?case
  proof (cases "acc < 2 ^ 60")
    case False
    then have "2 ^ 60 \<le> (of_nat acc :: 64 word)"
      by (simp add: word_le_nat_alt u1)
    then show ?thesis
      by (simp add: hex_digit_cases(3) [OF h(1)] del: parse_loop.simps)
  next
    case True
    from hex_digit_cases(2) [OF h(1)] True have a: "?a < 2 ^ 64" by simp
    from Cons.prems(3) have "2 ^ 64 \<le> foldl (\<lambda>n c. 16 * n + hex_digit_value c) ?a cs"
      by simp
    from Cons.IH [OF h(2) a this] obtain v e where
      r: "parse_loop (of_nat ?a) cs = (v, Some e)" by blast
    have eq: "(of_nat acc * 16 + of_nat ?d :: 64 word) = of_nat ?a" by simp
    have r': "parse_loop (of_nat acc * 16 + of_nat ?d) cs = (v, Some e)"
      by (simp only: eq r)
    show ?thesis
      by (simp add: hex_digit_cases(3) [OF h(1)] r' del: parse_loop.simps)
  qed
qed

lemma checkNumber_quantity:
  assumes "hex_quantity s"
  shows "checkNumber s = (drop 2 s, None)" and "list_all hex_digit (drop 2 s)"
    and "drop 2 s \<noteq> []" and "length (drop 2 s) + 2 = length s"
  using assms
  by (cases s rule: hex_encoded.cases;
      auto simp: hex_quantity_def checkNumber_def has0xPrefix_def Let_def)+

lemma checkNumber_leading_zero:
  assumes "hex_encoded s" and "\<not> hex_quantity s"
  shows "checkNumber s = ([], Some (DecodeError ErrLeadingZero))"
  using assms
  by (cases s rule: hex_encoded.cases)
     (auto simp: hex_quantity_def checkNumber_def has0xPrefix_def Let_def)

lemma DecodeBig_value:
  assumes "hex_quantity s" and "length s \<le> 66"
  shows "DecodeBig s = (Some (int (hex_value (drop 2 s))), None)"
proof -
  from checkNumber_quantity(4) [OF assms(1)] assms(2) have "\<not> 64 < length (drop 2 s)"
    by simp
  then show ?thesis
    using checkNumber_quantity(1,2) [OF assms(1)]
    by (simp add: DecodeBig_def big_of_nibbles_value hex_value_def del: length_drop)
qed

lemma DecodeBig_error:
  assumes "\<not> (hex_quantity s \<and> length s \<le> 66)"
  shows "\<exists>e. DecodeBig s = (None, Some e)"
proof (cases "hex_encoded s")
  case False
  then show ?thesis by (rule DecodeBig_malformed)
next
  case True
  show ?thesis
  proof (cases "hex_quantity s")
    case False
    with True show ?thesis by (simp add: DecodeBig_def checkNumber_leading_zero)
  next
    case q: True
    with assms have "66 < length s" by simp
    with checkNumber_quantity(4) [OF q] have "64 < length (drop 2 s)" by simp
    then show ?thesis
      using checkNumber_quantity(1) [OF q] by (simp add: DecodeBig_def del: length_drop)
  qed
qed

lemma DecodeUint64_value:
  assumes "hex_quantity s" and "hex_value (drop 2 s) < 2 ^ 64"
  shows "DecodeUint64 s = (of_nat (hex_value (drop 2 s)), None)"
proof -
  from assms(2) have "foldl (\<lambda>n c. 16 * n + hex_digit_value c) 0 (drop 2 s) < 2 ^ 64"
    by (simp add: hex_value_def)
  from parse_loop_value [OF checkNumber_quantity(2) [OF assms(1)] this]
  show ?thesis
    using checkNumber_quantity(1,3) [OF assms(1)]
    by (simp add: DecodeUint64_def ParseUint_def hex_value_def)
qed

lemma DecodeUint64_error:
  assumes "\<not> (hex_quantity s \<and> hex_value (drop 2 s) < 2 ^ 64)"
  shows "\<exists>v e. DecodeUint64 s = (v, Some e)"
proof (cases "hex_encoded s")
  case False
  then show ?thesis by (rule DecodeUint64_malformed)
next
  case True
  show ?thesis
  proof (cases "hex_quantity s")
    case False
    with True show ?thesis by (simp add: DecodeUint64_def checkNumber_leading_zero)
  next
    case q: True
    with assms have "2 ^ 64 \<le> foldl (\<lambda>n c. 16 * n + hex_digit_value c) 0 (drop 2 s)"
      by (simp add: hex_value_def not_less)
    from parse_loop_range [OF checkNumber_quantity(2) [OF q] _ this]
    obtain v e where "parse_loop 0 (drop 2 s) = (v, Some e)" by auto
    then show ?thesis
      using checkNumber_quantity(1,3) [OF q]
      by (simp add: DecodeUint64_def ParseUint_def)
  qed
qed

section \<open>Properties of the aggregation\<close>




text \<open>
  C4, as the claim states it, fails. The fee getter and the collateral-ratio getter both
  fail, with different errors. A run that ranges over the table in the declared order
  returns the fee getter's error; a run that visits the collateral ratio first returns
  the other one. Both are orders in which Go may range over the map.
\<close>

theorem first_error_depends_on_order:
  "iteration_order
      (config_loaders (minter (failing (RemoteError ''execution reverted''))
                              (failing (TransportError ''connection refused'')) (ok 50000)))
      [Ref_MintFee4, Ref_MinCollateralRatio4, Ref_RewardCollateralRatio4]
   \<and> iteration_order
      (config_loaders (minter (failing (RemoteError ''execution reverted''))
                              (failing (TransportError ''connection refused'')) (ok 50000)))
      [Ref_MinCollateralRatio4, Ref_MintFee4, Ref_RewardCollateralRatio4]
   \<and> snd (pullSetOfDefiConfigValues
        (config_loaders (minter (failing (RemoteError ''execution reverted''))
                                (failing (TransportError ''connection refused'')) (ok 50000)))
        [Ref_MintFee4, Ref_MinCollateralRatio4, Ref_RewardCollateralRatio4]
        (container (fMintCfg (bridge_with (minter (ok 0) (ok 0) (ok 0))))))
      = Some (RemoteError ''execution reverted'')
   \<and> snd (pullSetOfDefiConfigValues
        (config_loaders (minter (failing (RemoteError ''execution reverted''))
                                (failing (TransportError ''connection refused'')) (ok 50000)))
        [Ref_MinCollateralRatio4, Ref_MintFee4, Ref_RewardCollateralRatio4]
        (container (fMintCfg (bridge_with (minter (ok 0) (ok 0) (ok 0))))))
      = Some (TransportError ''connection refused'')"
  by (simp add: eval_defs iteration_order_def insert_commute)

text \<open>
  C4, amended. The error \<^verbatim>\<open>pullSetOfDefiConfigValues\<close> returns is the error of the
  first failing loader in the order in which the run ranges over the map, whatever the
  record it starts from; so two runs over the same loaders with the same outcomes return
  the same error when they range in the same order, and in any two orders when all the
  failing loaders fail with the same error (as when at most one fails).
\<close>

theorem first_error_by_iteration_order:
  "snd (pullSetOfDefiConfigValues loaders order ds) =
      (case first_failing loaders order of
         None \<Rightarrow> None
       | Some r \<Rightarrow> loader_error loaders r)
   \<and> (iteration_order loaders order \<and> iteration_order loaders order'
        \<and> (\<forall>r r'. fails loaders r \<and> fails loaders r'
              \<longrightarrow> loader_error loaders r = loader_error loaders r')
      \<longrightarrow> snd (pullSetOfDefiConfigValues loaders order ds)
            = snd (pullSetOfDefiConfigValues loaders order' ds'))"
proof (intro conjI impI)
  show "snd (pullSetOfDefiConfigValues loaders order ds) =
      (case first_failing loaders order of None \<Rightarrow> None | Some r \<Rightarrow> loader_error loaders r)"
    by (rule pullSet_error)
next
  assume a: "iteration_order loaders order \<and> iteration_order loaders order'
        \<and> (\<forall>r r'. fails loaders r \<and> fails loaders r'
              \<longrightarrow> loader_error loaders r = loader_error loaders r')"
  then have s: "set order = set order'" by (simp add: iteration_order_def)
  show "snd (pullSetOfDefiConfigValues loaders order ds)
            = snd (pullSetOfDefiConfigValues loaders order' ds')"
  proof (cases "first_failing loaders order")
    case None
    then have "\<forall>r \<in> set order. \<not> fails loaders r"
      by (simp add: first_failing_def find_None_iff)
    with s have "first_failing loaders order' = None"
      by (simp add: first_failing_def find_None_iff)
    with None show ?thesis by (simp add: pullSet_error)
  next
    case (Some r)
    then have r: "fails loaders r" "r \<in> set order"
      by (auto simp: first_failing_def find_Some_iff)
    with s have "\<exists>x \<in> set order'. fails loaders x" by auto
    then obtain r' where r': "first_failing loaders order' = Some r'"
      by (cases "first_failing loaders order'") (auto simp: first_failing_def find_None_iff)
    then have "fails loaders r'" by (auto simp: first_failing_def find_Some_iff)
    with r a have "loader_error loaders r = loader_error loaders r'" by blast
    with Some r' show ?thesis by (simp add: pullSet_error)
  qed
qed

text \<open>Only the collateral-ratio getter fails: the declared order and its reverse return
  the same error.\<close>

theorem first_error_by_iteration_order_witness:
  "iteration_order
      (config_loaders (minter (ok 25) (failing (RemoteError ''execution reverted'')) (ok 50000)))
      [Ref_MintFee4, Ref_MinCollateralRatio4, Ref_RewardCollateralRatio4]
   \<and> iteration_order
      (config_loaders (minter (ok 25) (failing (RemoteError ''execution reverted'')) (ok 50000)))
      [Ref_RewardCollateralRatio4, Ref_MinCollateralRatio4, Ref_MintFee4]
   \<and> first_failing
      (config_loaders (minter (ok 25) (failing (RemoteError ''execution reverted'')) (ok 50000)))
      [Ref_RewardCollateralRatio4, Ref_MinCollateralRatio4, Ref_MintFee4]
      = Some Ref_MinCollateralRatio4
   \<and> snd (pullSetOfDefiConfigValues
        (config_loaders (minter (ok 25) (failing (RemoteError ''execution reverted'')) (ok 50000)))
        [Ref_MintFee4, Ref_MinCollateralRatio4, Ref_RewardCollateralRatio4]
        (container (fMintCfg (bridge_with (minter (ok 0) (ok 0) (ok 0))))))
      = Some (RemoteError ''execution reverted'')
   \<and> snd (pullSetOfDefiConfigValues
        (config_loaders (minter (ok 25) (failing (RemoteError ''execution reverted'')) (ok 50000)))
        [Ref_RewardCollateralRatio4, Ref_MinCollateralRatio4, Ref_MintFee4]
        (container (fMintCfg (bridge_with (minter (ok 0) (ok 0) (ok 0))))))
      = Some (RemoteError ''execution reverted'')"
proof -
  let ?L = "config_loaders (minter (ok 25) (failing (RemoteError ''execution reverted'')) (ok 50000))"
  let ?o1 = "[Ref_MintFee4, Ref_MinCollateralRatio4, Ref_RewardCollateralRatio4]"
  let ?o2 = "[Ref_RewardCollateralRatio4, Ref_MinCollateralRatio4, Ref_MintFee4]"
  let ?ds = "container (fMintCfg (bridge_with (minter (ok 0) (ok 0) (ok 0))))"
  have i: "iteration_order ?L ?o1" "iteration_order ?L ?o2"
    by (simp_all add: eval_defs iteration_order_def insert_commute)
  have f: "fails ?L r \<longleftrightarrow> r = Ref_MinCollateralRatio4" for r
    by (cases r) (simp_all add: eval_defs)
  then have same: "\<forall>r r'. fails ?L r \<and> fails ?L r' \<longrightarrow> loader_error ?L r = loader_error ?L r'"
    by simp
  have ff: "first_failing ?L ?o2 = Some Ref_MinCollateralRatio4"
    "first_failing ?L ?o1 = Some Ref_MinCollateralRatio4"
    by (simp_all add: eval_defs)
  have le: "loader_error ?L Ref_MinCollateralRatio4 = Some (RemoteError ''execution reverted'')"
    by (simp add: eval_defs)
  note t = first_error_by_iteration_order [of ?L ?o1 ?ds ?o2 ?ds]
  from t ff le have e1: "snd (pullSetOfDefiConfigValues ?L ?o1 ?ds)
      = Some (RemoteError ''execution reverted'')"
    by (simp del: pullSetOfDefiConfigValues.simps)
  from t i same have "snd (pullSetOfDefiConfigValues ?L ?o1 ?ds)
      = snd (pullSetOfDefiConfigValues ?L ?o2 ?ds)"
    by blast
  with e1 i ff show ?thesis
    by (simp del: pullSetOfDefiConfigValues.simps)
qed

text \<open>
  C5, as the claim states it, fails. On a bridge configured with the default address
  provider, \<open>0x08aa8b88721853c62cc8192da8f24aeb94aaeb66\<close>, the record returned has
  the address provider \<open>0xdeec401e448d5d9132eb79ac84eb3f212d7759fb\<close>, the literal
  written in \<^verbatim>\<open>DefiConfiguration\<close>.
\<close>

theorem address_provider_not_from_configuration:
  "DefiConfiguration (bridge_with (minter (ok 25) (ok 30000) (ok 50000))) declared_order
     = Inr (Some \<lparr> FMintContract = 0x4acb55fe5f0b7c487edec3862079aa36ab054358,
                   FMintAddressProvider = 0xdeec401e448d5d9132eb79ac84eb3f212d7759fb,
                   FMintTokenRegistry = 0x60092e344c63c6628ec77926e508f9a9c80553ef,
                   FMintRewardDistribution = 0x0039597eb5aa5760e8db15fbe525e56aa661ef26,
                   FMintCollateralPool = 0x6d5f2f2e391f47a1075df4d39a24286c63c0e70c,
                   FMintDebtPool = 0xe2d1105f35649bf16deebccec1f2100dcb9aadf5,
                   PriceOracleAggregate = 0xA1EA42f737bb2E09b0AE4DE001eE06e3BC484fE5,
                   MintFee4 = 25,
                   MinCollateralRatio4 = 30000,
                   RewardCollateralRatio4 = 50000,
                   Decimals = 4 \<rparr>, None)
   \<and> addressProvider (fMintCfg (bridge_with (minter (ok 25) (ok 30000) (ok 50000))))
       = 0x08aa8b88721853c62cc8192da8f24aeb94aaeb66
   \<and> (0xdeec401e448d5d9132eb79ac84eb3f212d7759fb :: Address)
       \<noteq> 0x08aa8b88721853c62cc8192da8f24aeb94aaeb66"
  using example_configuration
  by (simp add: example_settings_def default_address_provider)

text \<open>
  C5, amended. The seven contract addresses of the record \<^verbatim>\<open>DefiConfiguration\<close>
  returns are what \<^verbatim>\<open>mustContractAddress\<close> of the fMint configuration gives for the
  seven address literals written in \<^verbatim>\<open>DefiConfiguration\<close>, the address provider for
  \<open>0xdeec401e448d5d9132eb79ac84eb3f212d7759fb\<close>; they depend neither on the
  outcomes of the loaders nor on the configured address of the address provider.
\<close>

theorem contract_addresses_are_literals:
  assumes "DefiConfiguration ftm order = Inr (Some ds, err)"
  shows "addresses ds = map (mustContractAddress (fMintCfg ftm))
           [''0x4acb55fe5f0b7c487edec3862079aa36ab054358'',
            ''0xdeec401e448d5d9132eb79ac84eb3f212d7759fb'',
            ''0x60092e344c63c6628ec77926e508f9a9c80553ef'',
            ''0x0039597eb5aa5760e8db15fbe525e56aa661ef26'',
            ''0x6d5f2f2e391f47a1075df4d39a24286c63c0e70c'',
            ''0xe2d1105f35649bf16deebccec1f2100dcb9aadf5'',
            ''0xA1EA42f737bb2E09b0AE4DE001eE06e3BC484fE5'']"
proof -
  from assms obtain contract where
    m: "fMintMinterContract (fMintCfg ftm) = (Some contract, None)"
    by (auto simp: DefiConfiguration_def split: option.splits prod.splits)
  obtain ds' e' where
    p: "pullSetOfDefiConfigValues (config_loaders contract) order (container (fMintCfg ftm))
          = (ds', e')"
    by (cases "pullSetOfDefiConfigValues (config_loaders contract) order
          (container (fMintCfg ftm))")
  from assms m p have "\<exists>dec. ds = ds'\<lparr>Decimals := dec\<rparr>"
    by (auto simp: DefiConfiguration_def split: option.splits prod.splits)
  with p have ds: "\<exists>dec. ds = (fst (pullSetOfDefiConfigValues (config_loaders contract) order
                (container (fMintCfg ftm))))\<lparr>Decimals := dec\<rparr>"
    by simp
  have "addresses ds = addresses (fst (pullSetOfDefiConfigValues (config_loaders contract) order
                (container (fMintCfg ftm))))"
    using ds by (auto simp: addresses_def)
  also have "\<dots> = addresses (container (fMintCfg ftm))"
    by (rule pullSet_addresses)
  finally show ?thesis by (simp add: addresses_def container_def)
qed

text \<open>On the example bridge the record is returned and its addresses are the seven
  literals.\<close>

theorem contract_addresses_are_literals_witness:
  "DefiConfiguration (bridge_with (minter (ok 25) (ok 30000) (ok 50000))) declared_order
     = Inr (Some example_settings, None)
   \<and> addresses example_settings = map address_of_text
           [''0x4acb55fe5f0b7c487edec3862079aa36ab054358'',
            ''0xdeec401e448d5d9132eb79ac84eb3f212d7759fb'',
            ''0x60092e344c63c6628ec77926e508f9a9c80553ef'',
            ''0x0039597eb5aa5760e8db15fbe525e56aa661ef26'',
            ''0x6d5f2f2e391f47a1075df4d39a24286c63c0e70c'',
            ''0xe2d1105f35649bf16deebccec1f2100dcb9aadf5'',
            ''0xA1EA42f737bb2E09b0AE4DE001eE06e3BC484fE5'']"
proof -
  have m: "mustContractAddress (fMintCfg (bridge_with k)) = address_of_text" for k
    by (simp add: bridge_with_def)
  from contract_addresses_are_literals [OF example_configuration] example_configuration m
  show ?thesis by simp
qed

section \<open>Properties of the token resolver\<close>

text \<open>
  C3, as the claim states it, fails. When the repository reports that the node was not
  reached, \<^verbatim>\<open>NewErc20Token\<close> returns nil, exactly as it does when the node reported a
  failure of the probe: the transport failure does not come out as an error.
\<close>

theorem transport_failure_reported_as_absence:
  "NewErc20Token (probe_repository (None, Some (TransportError ''connection refused'')))
      0x4acb55fe5f0b7c487edec3862079aa36ab054358 = Inr None
   \<and> NewErc20Token (probe_repository (None, Some (RemoteError ''execution reverted'')))
      0x4acb55fe5f0b7c487edec3862079aa36ab054358 = Inr None"
  by (simp add: NewErc20Token_def probe_repository_def)

text \<open>
  C3, amended. Whatever error the repository's \<^verbatim>\<open>Erc20Token\<close> returns, a failure of
  the probe reported by the node or a failure to reach the node, \<^verbatim>\<open>NewErc20Token\<close>
  resolves to nil; it has no error result, so the caller cannot tell the two apart. It
  returns a token exactly when the repository returned one without an error.
\<close>

theorem any_probe_error_is_absence:
  "(Erc20Token R adr = (t, Some e) \<longrightarrow> NewErc20Token R adr = Inr None)
   \<and> (NewErc20Token R adr = Inr (Some tok) \<longleftrightarrow>
        (\<exists>t'. Erc20Token R adr = (Some t', None) \<and> tok = ERC20Token t'))"
  by (auto simp: NewErc20Token_def split: prod.splits option.splits)

text \<open>A repository that cannot reach the node gives nil; one that finds the token gives
  the token.\<close>

theorem any_probe_error_is_absence_witness:
  "Erc20Token (probe_repository (None, Some (TransportError ''connection refused'')))
      0x4acb55fe5f0b7c487edec3862079aa36ab054358
     = (None, Some (TransportError ''connection refused''))
   \<and> NewErc20Token (probe_repository (None, Some (TransportError ''connection refused'')))
      0x4acb55fe5f0b7c487edec3862079aa36ab054358 = Inr None
   \<and> NewErc20Token
        (probe_repository (Some \<lparr> Address = 0x4acb55fe5f0b7c487edec3862079aa36ab054358 \<rparr>, None))
        0x4acb55fe5f0b7c487edec3862079aa36ab054358
     = Inr (Some (ERC20Token \<lparr> Address = 0x4acb55fe5f0b7c487edec3862079aa36ab054358 \<rparr>))"
proof -
  let ?a = "0x4acb55fe5f0b7c487edec3862079aa36ab054358 :: Address"
  have p: "Erc20Token (probe_repository outcome) adr = outcome" for outcome adr
    by (simp add: probe_repository_def)
  note fails = any_probe_error_is_absence
    [of "probe_repository (None, Some (TransportError ''connection refused''))" ?a None
        "TransportError ''connection refused''"]
  note finds = any_probe_error_is_absence
    [of "probe_repository (Some \<lparr> Address = ?a \<rparr>, None)" ?a _ _
        "ERC20Token \<lparr> Address = ?a \<rparr>"]
  from fails p have 1: "NewErc20Token
      (probe_repository (None, Some (TransportError ''connection refused''))) ?a = Inr None"
    by blast
  from finds p have 2: "NewErc20Token (probe_repository (Some \<lparr> Address = ?a \<rparr>, None)) ?a
     = Inr (Some (ERC20Token \<lparr> Address = ?a \<rparr>))"
    by blast
  from 1 2 p show ?thesis by blast
qed

section \<open>Properties of the account queries\<close>

text \<open>
  C7. When the node answers without an error, \<^verbatim>\<open>AccountBalance\<close> decodes the answer
  \<^verbatim>\<open>0x1b1ae4d6e2ef500000\<close> to the integer 500 * 10^18 and \<^verbatim>\<open>AccountNonce\<close> decodes
  \<^verbatim>\<open>0x5\<close> to 5; an answer that is not hex-encoded makes both return an error,
  \<^verbatim>\<open>AccountBalance\<close> with a nil value. In general \<^verbatim>\<open>AccountBalance\<close> decodes every
  quantity of at most 64 digits to the integer its digits denote, and \<^verbatim>\<open>AccountNonce\<close>
  decodes every quantity below 2^64 to the 64-bit number its digits denote; every other
  answer (not hex-encoded, with a leading zero digit, or out of that range) makes them
  return an error, with a nil balance and a zero count.
\<close>

theorem account_decoding:
  assumes "Call (rpc ftm) ''ftm_getBalance'' addr ''latest'' = (balance, None)"
    and "Call (rpc ftm) ''ftm_getTransactionCount'' addr ''latest'' = (nonce, None)"
  shows "(balance = ''0x1b1ae4d6e2ef500000'' \<longrightarrow>
            AccountBalance ftm addr = (Some (500 * 10 ^ 18), None))
       \<and> (nonce = ''0x5'' \<longrightarrow> AccountNonce ftm addr = (5, None))
       \<and> (\<not> hex_encoded balance \<longrightarrow> (\<exists>e. AccountBalance ftm addr = (None, Some e)))
       \<and> (\<not> hex_encoded nonce \<longrightarrow> (\<exists>e. AccountNonce ftm addr = (0, Some e)))
       \<and> (hex_quantity balance \<and> length balance \<le> 66 \<longrightarrow>
            AccountBalance ftm addr = (Some (int (hex_value (drop 2 balance))), None))
       \<and> (hex_quantity nonce \<and> hex_value (drop 2 nonce) < 2 ^ 64 \<longrightarrow>
            AccountNonce ftm addr = (of_nat (hex_value (drop 2 nonce)), None))
       \<and> (\<not> (hex_quantity balance \<and> length balance \<le> 66) \<longrightarrow>
            (\<exists>e. AccountBalance ftm addr = (None, Some e)))
       \<and> (\<not> (hex_quantity nonce \<and> hex_value (drop 2 nonce) < 2 ^ 64) \<longrightarrow>
            (\<exists>e. AccountNonce ftm addr = (0, Some e)))"
proof (intro conjI impI)
  assume "balance = ''0x1b1ae4d6e2ef500000''"
  moreover have "DecodeBig ''0x1b1ae4d6e2ef500000'' = (Some (500 * 10 ^ 18), None)"
    by (simp add: DecodeBig_def checkNumber_def has0xPrefix_def decodeNibble_def)
  ultimately show "AccountBalance ftm addr = (Some (500 * 10 ^ 18), None)"
    using assms(1) by (simp add: AccountBalance_def)
next
  assume "nonce = ''0x5''"
  moreover have "DecodeUint64 ''0x5'' = (5, None)"
    by (simp add: DecodeUint64_def ParseUint_def checkNumber_def has0xPrefix_def lower_def)
  ultimately show "AccountNonce ftm addr = (5, None)"
    using assms(2) by (simp add: AccountNonce_def)
next
  assume "\<not> hex_encoded balance"
  from DecodeBig_malformed [OF this] assms(1)
  show "\<exists>e. AccountBalance ftm addr = (None, Some e)"
    by (auto simp: AccountBalance_def)
next
  assume "\<not> hex_encoded nonce"
  from DecodeUint64_malformed [OF this] assms(2)
  show "\<exists>e. AccountNonce ftm addr = (0, Some e)"
    by (auto simp: AccountNonce_def)
next
  assume "hex_quantity balance \<and> length balance \<le> 66"
  then have "DecodeBig balance = (Some (int (hex_value (drop 2 balance))), None)"
    by (simp add: DecodeBig_value)
  with assms(1)
  show "AccountBalance ftm addr = (Some (int (hex_value (drop 2 balance))), None)"
    by (simp add: AccountBalance_def)
next
  assume "hex_quantity nonce \<and> hex_value (drop 2 nonce) < 2 ^ 64"
  then have "DecodeUint64 nonce = (of_nat (hex_value (drop 2 nonce)), None)"
    by (simp add: DecodeUint64_value)
  with assms(2)
  show "AccountNonce ftm addr = (of_nat (hex_value (drop 2 nonce)), None)"
    by (simp add: AccountNonce_def)
next
  assume "\<not> (hex_quantity balance \<and> length balance \<le> 66)"
  from DecodeBig_error [OF this] assms(1)
  show "\<exists>e. AccountBalance ftm addr = (None, Some e)"
    by (auto simp: AccountBalance_def)
next
  assume "\<not> (hex_quantity nonce \<and> hex_value (drop 2 nonce) < 2 ^ 64)"
  from DecodeUint64_error [OF this] assms(2)
  show "\<exists>e. AccountNonce ftm addr = (0, Some e)"
    by (auto simp: AccountNonce_def)
qed

text \<open>
  The two answers of the claim; an answer with a letter that is no hex digit and an
  answer without the prefix; the quantities of 10^18 and of 42; an answer with a leading
  zero; and the quantity of 2^64, a balance but no transaction count.
\<close>

theorem account_decoding_witness:
  "AccountBalance (stub_bridge ''0x1b1ae4d6e2ef500000'') 0 = (Some 500000000000000000000, None)
   \<and> AccountNonce (stub_bridge ''0x5'') 0 = (5, None)
   \<and> \<not> hex_encoded ''0x1b1ae4d6e2ef50000g''
   \<and> fst (AccountBalance (stub_bridge ''0x1b1ae4d6e2ef50000g'') 0) = None
   \<and> snd (AccountBalance (stub_bridge ''0x1b1ae4d6e2ef50000g'') 0) \<noteq> None
   \<and> snd (AccountNonce (stub_bridge ''0x1b1ae4d6e2ef50000g'') 0) \<noteq> None
   \<and> \<not> hex_encoded ''5''
   \<and> fst (AccountBalance (stub_bridge ''5'') 0) = None
   \<and> snd (AccountBalance (stub_bridge ''5'') 0) \<noteq> None
   \<and> snd (AccountNonce (stub_bridge ''5'') 0) \<noteq> None
   \<and> hex_quantity ''0xDE0b6b3a7640000''
   \<and> AccountBalance (stub_bridge ''0xDE0b6b3a7640000'') 0 = (Some 1000000000000000000, None)
   \<and> hex_quantity ''0x2a''
   \<and> AccountNonce (stub_bridge ''0x2a'') 0 = (42, None)
   \<and> \<not> hex_quantity ''0x05''
   \<and> fst (AccountBalance (stub_bridge ''0x05'') 0) = None
   \<and> snd (AccountBalance (stub_bridge ''0x05'') 0) \<noteq> None
   \<and> snd (AccountNonce (stub_bridge ''0x05'') 0) \<noteq> None
   \<and> hex_quantity ''0x10000000000000000''
   \<and> AccountBalance (stub_bridge ''0x10000000000000000'') 0 = (Some (2 ^ 64), None)
   \<and> snd (AccountNonce (stub_bridge ''0x10000000000000000'') 0) \<noteq> None"
proof -
  have c: "Call (rpc (stub_bridge r)) m a t = (r, None)" for r m a t
    by (simp add: stub_bridge_def)
  have h: "\<not> hex_encoded ''0x1b1ae4d6e2ef50000g''" "\<not> hex_encoded ''5''"
    by (simp_all add: hex_digit_def)
  have q: "hex_quantity ''0xDE0b6b3a7640000''" "hex_quantity ''0x2a''"
      "\<not> hex_quantity ''0x05''" "hex_quantity ''0x10000000000000000''"
    by (simp_all add: hex_quantity_def hex_digit_def)
  have v: "hex_value (drop 2 ''0xDE0b6b3a7640000'') = 1000000000000000000"
      "hex_value (drop 2 ''0x2a'') = 42"
      "hex_value (drop 2 ''0x10000000000000000'') = 2 ^ 64"
    by (simp_all add: hex_value_def hex_digit_value_def upt16)
  note good1 = account_decoding [where ftm = "stub_bridge ''0x1b1ae4d6e2ef500000''"
      and addr = 0 and balance = "''0x1b1ae4d6e2ef500000''"
      and nonce = "''0x1b1ae4d6e2ef500000''", OF c c]
  note good2 = account_decoding [where ftm = "stub_bridge ''0x5''"
      and addr = 0 and balance = "''0x5''" and nonce = "''0x5''", OF c c]
  note bad1 = account_decoding [where ftm = "stub_bridge ''0x1b1ae4d6e2ef50000g''"
      and addr = 0 and balance = "''0x1b1ae4d6e2ef50000g''"
      and nonce = "''0x1b1ae4d6e2ef50000g''", OF c c]
  note bad2 = account_decoding [where ftm = "stub_bridge ''5''"
      and addr = 0 and balance = "''5''" and nonce = "''5''", OF c c]
  note gen1 = account_decoding [where ftm = "stub_bridge ''0xDE0b6b3a7640000''"
      and addr = 0 and balance = "''0xDE0b6b3a7640000''"
      and nonce = "''0xDE0b6b3a7640000''", OF c c]
  note gen2 = account_decoding [where ftm = "stub_bridge ''0x2a''"
      and addr = 0 and balance = "''0x2a''" and nonce = "''0x2a''", OF c c]
  note zero = account_decoding [where ftm = "stub_bridge ''0x05''"
      and addr = 0 and balance = "''0x05''" and nonce = "''0x05''", OF c c]
  note big = account_decoding [where ftm = "stub_bridge ''0x10000000000000000''"
      and addr = 0 and balance = "''0x10000000000000000''"
      and nonce = "''0x10000000000000000''", OF c c]
  from good1 good2 have g: "AccountBalance (stub_bridge ''0x1b1ae4d6e2ef500000'') 0
        = (Some 500000000000000000000, None)"
      "AccountNonce (stub_bridge ''0x5'') 0 = (5, None)"
    by simp_all
  from bad1 h(1) have b1: "fst (AccountBalance (stub_bridge ''0x1b1ae4d6e2ef50000g'') 0) = None"
      "snd (AccountBalance (stub_bridge ''0x1b1ae4d6e2ef50000g'') 0) \<noteq> None"
      "snd (AccountNonce (stub_bridge ''0x1b1ae4d6e2ef50000g'') 0) \<noteq> None"
    by auto
  from bad2 h(2) have b2: "fst (AccountBalance (stub_bridge ''5'') 0) = None"
      "snd (AccountBalance (stub_bridge ''5'') 0) \<noteq> None"
      "snd (AccountNonce (stub_bridge ''5'') 0) \<noteq> None"
    by auto
  have l: "length ''0xDE0b6b3a7640000'' \<le> 66" "length ''0x10000000000000000'' \<le> 66"
    by simp_all
  from gen1 q(1) l(1) v(1)
  have g1: "AccountBalance (stub_bridge ''0xDE0b6b3a7640000'') 0
      = (Some 1000000000000000000, None)"
    by (simp del: length_Cons list.size drop_Suc_Cons)
  from gen2 q(2) v(2)
  have g2: "AccountNonce (stub_bridge ''0x2a'') 0 = (42, None)"
    by (simp del: drop_Suc_Cons)
  from zero q(3) have z: "fst (AccountBalance (stub_bridge ''0x05'') 0) = None"
      "snd (AccountBalance (stub_bridge ''0x05'') 0) \<noteq> None"
      "snd (AccountNonce (stub_bridge ''0x05'') 0) \<noteq> None"
    by auto
  from big q(4) l(2) v(3)
  have o: "AccountBalance (stub_bridge ''0x10000000000000000'') 0 = (Some (2 ^ 64), None)"
      "snd (AccountNonce (stub_bridge ''0x10000000000000000'') 0) \<noteq> None"
    by (auto simp del: length_Cons list.size drop_Suc_Cons)
  from g h b1 b2 q g1 g2 z o show ?thesis by blast
qed

end
